theory Spec2Isabelle
  imports Main "HOL-Library.Word"
begin

section \<open>The analysis client (services/geminiService.ts)\<close>

subsection \<open>Values of the runtime\<close>

text \<open>
  What a JavaScript \<open>throw\<close> or a rejected promise carries. \<open>Error m\<close> is
  \<open>new Error(m)\<close>, \<open>SyntaxError\<close> is what \<open>JSON.parse\<close> throws, a
  \<open>DOMException\<close> (by its name) is what the media APIs throw, and \<open>ApiError\<close>
  stands for whatever else the backend SDK rejects with.
\<close>

datatype js_error =
    Error string
  | SyntaxError
  | DOMException string
  | ApiError string

text \<open>
  A parsed JSON document. \<open>JSON.parse(...) as AnalysisResult\<close> is a compile-time cast:
  at run time the analysis result is whatever value the parser built. Numbers are kept as
  integers; no function of the client reads one.
\<close>

datatype json =
    JNull
  | JBool bool
  | JNumber int
  | JString string
  | JArray "json list"
  | JObject "(string \<times> json) list"

text \<open>Reading a property: \<open>None\<close> is JavaScript's \<open>undefined\<close>.\<close>

fun getProp :: "json \<Rightarrow> string \<Rightarrow> json option" where
  "getProp (JObject kvs) k = map_of kvs k"
| "getProp _ k = None"

subsection \<open>Requests and responses of the backend\<close>

text \<open>
  The three prompt templates. Their instruction text is fixed; the text-analysis prompt
  ends with the transcript, embedded verbatim (\<open>${text}\<close>).
\<close>

datatype prompt =
    WelcomePrompt
  | TextAnalysisPrompt string
  | AudioAnalysisPrompt

text \<open>
  A part of a multi-part request: \<open>{ inlineData: { mimeType, data } }\<close> or
  \<open>{ text: prompt }\<close>. \<open>data\<close> is \<open>None\<close> when the value handed over is
  \<open>undefined\<close>.
\<close>

datatype part =
    InlineData string "string option"
  | TextPart prompt

datatype contents =
    PromptOnly prompt
  | Parts "part list"

text \<open>
  The argument of \<open>ai.models.generateContent\<close>. \<open>responseMimeType\<close> is the
  \<open>config.responseMimeType\<close> entry, \<open>None\<close> when the call passes no \<open>config\<close>.
\<close>

record request =
  model :: string
  contents :: contents
  responseMimeType :: "string option"

text \<open>The response: \<open>response.text\<close> is a string or \<open>undefined\<close>.\<close>

record response =
  responseText :: "string option"

text \<open>
  The platform the client runs on, as far as the client uses it:
  \<^item> \<open>newGoogleGenAI\<close>: the outcome of \<open>new GoogleGenAI({ apiKey })\<close>, \<open>None\<close> when
    the client object is built, \<open>Some e\<close> when the constructor throws \<open>e\<close>;
  \<^item> \<open>generateContent\<close>: the backend call, rejected (\<open>Inl\<close>) or resolved (\<open>Inr\<close>);
  \<^item> \<open>JSON_parse\<close>: \<open>JSON.parse\<close>, \<open>None\<close> when it throws its \<open>SyntaxError\<close>;
  \<^item> \<open>readError\<close>: \<open>Some e\<close> when the \<open>FileReader\<close> fires \<open>onerror\<close> with \<open>e\<close>.
\<close>

record platform =
  newGoogleGenAI :: "js_error option"
  generateContent :: "request \<Rightarrow> js_error + response"
  JSON_parse :: "string \<Rightarrow> json option"
  readError :: "js_error option"

text \<open>
  What the client does to the outside: the requests it hands to the backend, in order,
  and the lines it writes with \<open>console.error\<close>.
\<close>

record io =
  calls :: "request list"
  console :: "(string \<times> js_error) list"

definition modelId :: string where
  "modelId = ''gemini-2.5-flash''"

definition fallbackWelcome :: string where
  "fallbackWelcome = ''Welcome. Let's explore the micro-dimensions of your experience. Please start by identifying a specific moment you wish to investigate.''"

definition noTextError :: js_error where
  "noTextError = Error ''No response text from Gemini''"

text \<open>JavaScript truthiness of \<open>response.text\<close>: \<open>undefined\<close> and \<open>""\<close> are falsy.\<close>

fun truthy :: "string option \<Rightarrow> bool" where
  "truthy None = False"
| "truthy (Some s) = (s \<noteq> [])"

text \<open>\<open>a || b\<close> on an optional string.\<close>

fun orElse :: "string option \<Rightarrow> string \<Rightarrow> string" where
  "orElse None d = d"
| "orElse (Some s) d = (if s = [] then d else s)"

text \<open>\<open>await ai.models.generateContent(req)\<close>: the request is recorded, then answered.\<close>

definition callBackend :: "platform \<Rightarrow> request \<Rightarrow> io \<Rightarrow> io \<times> (js_error + response)" where
  "callBackend env req w = (w\<lparr>calls := calls w @ [req]\<rparr>, generateContent env req)"

text \<open>\<open>catch (error) { console.error(label, error); throw error; }\<close>\<close>

fun catchLogRethrow :: "string \<Rightarrow> io \<times> (js_error + 'a) \<Rightarrow> io \<times> (js_error + 'a)" where
  "catchLogRethrow label (w, Inl error) = (w\<lparr>console := console w @ [(label, error)]\<rparr>, Inl error)"
| "catchLogRethrow label (w, Inr v) = (w, Inr v)"

subsection \<open>getWelcomeMessage\<close>

definition welcomeRequest :: request where
  "welcomeRequest = \<lparr>model = modelId, contents = PromptOnly WelcomePrompt, responseMimeType = None\<rparr>"

definition getWelcomeMessage :: "platform \<Rightarrow> io \<Rightarrow> io \<times> (js_error + string)" where
  "getWelcomeMessage env w =
     (case newGoogleGenAI env of
        Some e \<Rightarrow> (w, Inl e)
      | None \<Rightarrow>
          (case callBackend env welcomeRequest w of
             (w1, Inr response) \<Rightarrow> (w1, Inr (orElse (responseText response) fallbackWelcome))
           | (w1, Inl error) \<Rightarrow>
               (w1\<lparr>console := console w1 @ [(''Gemini Welcome Message Error:'', error)]\<rparr>,
                Inr fallbackWelcome)))"

subsection \<open>analyzeTextTranscript\<close>

definition textRequest :: "string \<Rightarrow> request" where
  "textRequest text_in =
     \<lparr>model = modelId, contents = PromptOnly (TextAnalysisPrompt text_in),
      responseMimeType = Some ''application/json''\<rparr>"

text \<open>
  The body both analysis functions share after the call:
  \<open>if (response.text) return JSON.parse(response.text) else throw new Error(...)\<close>.
\<close>

definition parseResponse :: "platform \<Rightarrow> response \<Rightarrow> js_error + json" where
  "parseResponse env response =
     (if truthy (responseText response) then
        (case JSON_parse env (the (responseText response)) of
           Some v \<Rightarrow> Inr v
         | None \<Rightarrow> Inl SyntaxError)
      else Inl noTextError)"

definition analyzeTextTranscript :: "platform \<Rightarrow> string \<Rightarrow> io \<Rightarrow> io \<times> (js_error + json)" where
  "analyzeTextTranscript env text_in w =
     (case newGoogleGenAI env of
        Some e \<Rightarrow> (w, Inl e)
      | None \<Rightarrow>
          catchLogRethrow ''Gemini Text Analysis Error:''
            (case callBackend env (textRequest text_in) w of
               (w1, Inl error) \<Rightarrow> (w1, Inl error)
             | (w1, Inr response) \<Rightarrow> (w1, parseResponse env response)))"

subsection \<open>Blobs, base64 and data URLs\<close>

type_synonym byte = "8 word"

text \<open>A \<open>Blob\<close>: its bytes and its \<open>type\<close> (the media-type tag).\<close>

record blob =
  blobBytes :: "byte list"
  blobType :: string

definition base64Alphabet :: string where
  "base64Alphabet = ''ABCDEFGHIJKLMNOPQRSTUVWXYZabcdefghijklmnopqrstuvwxyz0123456789+/''"

definition b64char :: "nat \<Rightarrow> char" where
  "b64char n = base64Alphabet ! (n mod 64)"

fun indexOf :: "'a \<Rightarrow> 'a list \<Rightarrow> nat option" where
  "indexOf x [] = None"
| "indexOf x (y # ys) = (if x = y then Some 0 else map_option Suc (indexOf x ys))"

definition b64index :: "char \<Rightarrow> nat option" where
  "b64index c = indexOf c base64Alphabet"

text \<open>
  Base64 (RFC 4648) as the platform's \<open>FileReader.readAsDataURL\<close> produces it:
  three bytes become four characters, and a last group of one or two bytes is padded
  with \<open>=\<close>.
\<close>

fun base64_encode :: "byte list \<Rightarrow> string" where
  "base64_encode [] = []"
| "base64_encode [a] =
     [b64char (unat a div 4), b64char (unat a mod 4 * 16), CHR ''='', CHR ''='']"
| "base64_encode [a, b] =
     [b64char (unat a div 4), b64char (unat a mod 4 * 16 + unat b div 16),
      b64char (unat b mod 16 * 4), CHR ''='']"
| "base64_encode (a # b # c # rest) =
     [b64char (unat a div 4), b64char (unat a mod 4 * 16 + unat b div 16),
      b64char (unat b mod 16 * 4 + unat c div 64), b64char (unat c mod 64)]
     @ base64_encode rest"

text \<open>The decoder of the receiving side; \<open>None\<close> on text that is not base64.\<close>

fun base64_decode :: "string \<Rightarrow> byte list option" where
  "base64_decode [] = Some []"
| "base64_decode (c0 # c1 # c2 # c3 # rest) =
     (case (b64index c0, b64index c1) of
        (Some i0, Some i1) \<Rightarrow>
          (if rest = [] \<and> c2 = CHR ''='' \<and> c3 = CHR ''='' then
             Some [of_nat (i0 * 4 + i1 div 16)]
           else
             (case b64index c2 of
                None \<Rightarrow> None
              | Some i2 \<Rightarrow>
                  (if rest = [] \<and> c3 = CHR ''='' then
                     Some [of_nat (i0 * 4 + i1 div 16), of_nat (i1 mod 16 * 16 + i2 div 4)]
                   else
                     (case b64index c3 of
                        None \<Rightarrow> None
                      | Some i3 \<Rightarrow>
                          (case base64_decode rest of
                             None \<Rightarrow> None
                           | Some bs \<Rightarrow>
                               Some (of_nat (i0 * 4 + i1 div 16)
                                     # of_nat (i1 mod 16 * 16 + i2 div 4)
                                     # of_nat (i2 mod 4 * 64 + i3) # bs))))))
      | _ \<Rightarrow> None)"
| "base64_decode _ = None"

text \<open>
  \<open>reader.readAsDataURL(blob)\<close>: the result is
  \<open>data:<type>;base64,<payload>\<close> (the source's comment gives
  \<open>data:audio/wav;base64,\<close> as the prefix); a blob with no type is reported as
  \<open>application/octet-stream\<close>. The type is taken as the blob carries it; what a
  platform does with a type that is not a media type is not modelled.
\<close>

definition readAsDataURL :: "blob \<Rightarrow> string" where
  "readAsDataURL b =
     ''data:'' @ (if blobType b = [] then ''application/octet-stream'' else blobType b)
     @ '';base64,'' @ base64_encode (blobBytes b)"

text \<open>\<open>s.split(sep)\<close> for a one-character separator.\<close>

fun js_split :: "char \<Rightarrow> string \<Rightarrow> string list" where
  "js_split sep [] = [[]]"
| "js_split sep (c # cs) =
     (if c = sep then [] # js_split sep cs
      else (case js_split sep cs of
              [] \<Rightarrow> [[c]]
            | p # ps \<Rightarrow> (c # p) # ps))"

text \<open>\<open>xs[i]\<close>: \<open>undefined\<close> (\<open>None\<close>) out of range.\<close>

fun nthOpt :: "'a list \<Rightarrow> nat \<Rightarrow> 'a option" where
  "nthOpt [] i = None"
| "nthOpt (x # xs) 0 = Some x"
| "nthOpt (x # xs) (Suc i) = nthOpt xs i"

text \<open>
  \<open>blobToBase64\<close>: the promise rejects when the reader fires \<open>onerror\<close>; otherwise it
  resolves with \<open>base64String.split(",")[1]\<close>.
\<close>

definition blobToBase64 :: "platform \<Rightarrow> blob \<Rightarrow> js_error + string option" where
  "blobToBase64 env b =
     (case readError env of
        Some e \<Rightarrow> Inl e
      | None \<Rightarrow> Inr (nthOpt (js_split (CHR '','') (readAsDataURL b)) (Suc 0)))"

subsection \<open>analyzeInterview\<close>

definition audioRequest :: "string option \<Rightarrow> request" where
  "audioRequest base64Audio =
     \<lparr>model = modelId,
      contents = Parts [InlineData ''audio/wav'' base64Audio, TextPart AudioAnalysisPrompt],
      responseMimeType = Some ''application/json''\<rparr>"

definition analyzeInterview :: "platform \<Rightarrow> blob \<Rightarrow> io \<Rightarrow> io \<times> (js_error + json)" where
  "analyzeInterview env audioBlob w =
     (case newGoogleGenAI env of
        Some e \<Rightarrow> (w, Inl e)
      | None \<Rightarrow>
          (case blobToBase64 env audioBlob of
             Inl e \<Rightarrow> (w, Inl e)
           | Inr base64Audio \<Rightarrow>
               catchLogRethrow ''Gemini Analysis Error:''
                 (case callBackend env (audioRequest base64Audio) w of
                    (w1, Inl error) \<Rightarrow> (w1, Inl error)
                  | (w1, Inr response) \<Rightarrow> (w1, parseResponse env response))))"

section \<open>The capture unit (components/InterviewRecorder.tsx)\<close>

subsection \<open>The browser's media objects\<close>

type_synonym track = nat

datatype mediaStream = MediaStream (getTracks: "track list")

text \<open>\<open>new Blob(parts, { type })\<close>: the parts' bytes in order, under the given type.\<close>

definition newBlob :: "blob list \<Rightarrow> string \<Rightarrow> blob" where
  "newBlob parts ty = \<lparr>blobBytes = concat (map blobBytes parts), blobType = ty\<rparr>"

text \<open>\<open>MediaRecorder.state\<close>, as far as the component meets it.\<close>

datatype recorderState = Inactive | Capturing

text \<open>
  The \<open>onstop\<close> handler is a closure: it carries the \<open>stream\<close> and \<open>duration\<close> of
  the render in which \<open>stopRecording\<close> ran.
\<close>

record onstopClosure =
  closStream :: "mediaStream option"
  closDuration :: nat

text \<open>
  A \<open>MediaRecorder\<close>: the stream it records, its state, the \<open>onstop\<close> handler the
  component has assigned (if any), and whether a \<open>stop\<close> event is queued and not yet
  dispatched.
\<close>

record mediaRecorder =
  recStream :: mediaStream
  recState :: recorderState
  onstop :: "onstopClosure option"
  stopQueued :: bool

text \<open>What the component does to the outside, in the order it does it.\<close>

datatype effect =
    TrackStop track
  | OnSave blob nat
  | Alert string
  | ConsoleError string js_error
  | Uncaught js_error

text \<open>
  The browser around the component: the interval timers that are running, the next timer
  id \<open>setInterval\<close> will hand out, the \<open>getUserMedia\<close> promises that are pending, the
  microphone tracks that are live (handed out and not yet stopped), and the trace of
  effects.
\<close>

record browser =
  intervals :: "nat list"
  nextTimer :: nat
  micRequests :: nat
  liveTracks :: "track list"
  effects :: "effect list"

definition setInterval :: "browser \<Rightarrow> nat \<times> browser" where
  "setInterval w = (nextTimer w, w\<lparr>intervals := intervals w @ [nextTimer w], nextTimer := Suc (nextTimer w)\<rparr>)"

definition clearInterval :: "nat \<Rightarrow> browser \<Rightarrow> browser" where
  "clearInterval t w = w\<lparr>intervals := removeAll t (intervals w)\<rparr>"

text \<open>\<open>track.stop()\<close>, and \<open>stream.getTracks().forEach(track => track.stop())\<close>.\<close>

definition trackStop :: "track \<Rightarrow> browser \<Rightarrow> browser" where
  "trackStop t w = w\<lparr>liveTracks := removeAll t (liveTracks w), effects := effects w @ [TrackStop t]\<rparr>"

definition stopTracks :: "mediaStream \<Rightarrow> browser \<Rightarrow> browser" where
  "stopTracks ms w = fold trackStop (getTracks ms) w"

text \<open>
  The microphone as one call of \<open>startRecording\<close> meets it: the outcome of
  \<open>navigator.mediaDevices.getUserMedia({ audio: true })\<close> (a granted stream's tracks are
  live), and whether \<open>new MediaRecorder(stream)\<close> or \<open>mediaRecorder.start()\<close> throws.
\<close>

record microphone =
  getUserMedia :: "js_error + mediaStream"
  newMediaRecorder :: "js_error option"
  recorderStart :: "js_error option"

subsection \<open>The component's state\<close>

text \<open>The \<open>useState\<close> cells and the \<open>useRef\<close> cells of \<open>InterviewRecorder\<close>.\<close>

record component =
  isRecording :: bool
  duration :: nat
  stream :: "mediaStream option"
  showGuide :: bool
  welcomeMessage :: string
  isLoadingMessage :: bool
  mediaRecorderRef :: "mediaRecorder option"
  chunksRef :: "blob list"
  timerRef :: "nat option"

definition initialComponent :: component where
  "initialComponent =
     \<lparr>isRecording = False, duration = 0, stream = None, showGuide = True,
      welcomeMessage = [], isLoadingMessage = True,
      mediaRecorderRef = None, chunksRef = [], timerRef = None\<rparr>"

definition initialBrowser :: browser where
  "initialBrowser = \<lparr>intervals = [], nextTimer = 0, micRequests = 0, liveTracks = [], effects = []\<rparr>"

subsection \<open>startRecording\<close>

text \<open>The \<open>catch\<close> block of \<open>startRecording\<close>.\<close>

definition microphoneDenied :: "js_error \<Rightarrow> browser \<Rightarrow> browser" where
  "microphoneDenied err w =
     w\<lparr>effects := effects w @
        [ConsoleError ''Error accessing microphone:'' err,
         Alert ''Microphone access denied. Please allow microphone permissions.'']\<rparr>"

text \<open>
  The body of \<open>startRecording\<close> from the point where the awaited \<open>getUserMedia\<close>
  promise settles, with the outcome \<open>mic\<close>.
\<close>

definition startRecording :: "microphone \<Rightarrow> component \<times> browser \<Rightarrow> component \<times> browser" where
  "startRecording mic sw =
     (case sw of (s, w) \<Rightarrow>
        (case getUserMedia mic of
           Inl err \<Rightarrow> (s, microphoneDenied err w)
         | Inr mediaStream \<Rightarrow>
             (let w0 = w\<lparr>liveTracks := liveTracks w @ getTracks mediaStream\<rparr>;
                  s1 = s\<lparr>stream := Some mediaStream\<rparr>
              in (case newMediaRecorder mic of
                    Some err \<Rightarrow> (s1, microphoneDenied err w0)
                  | None \<Rightarrow>
                      (let rec = \<lparr>recStream = mediaStream, recState = Inactive,
                                   onstop = None, stopQueued = False\<rparr>;
                           s2 = s1\<lparr>mediaRecorderRef := Some rec, chunksRef := []\<rparr>
                       in (case recorderStart mic of
                             Some err \<Rightarrow> (s2, microphoneDenied err w0)
                           | None \<Rightarrow>
                               (let s3 = s2\<lparr>mediaRecorderRef := Some (rec\<lparr>recState := Capturing\<rparr>),
                                            isRecording := True\<rparr>;
                                    (t, w1) = setInterval w0
                                in (s3\<lparr>timerRef := Some t\<rparr>, w1))))))))"

text \<open>The interval callback \<open>setDuration(prev => prev + 1)\<close>, for a timer that still runs.\<close>

definition tick :: "nat \<Rightarrow> component \<times> browser \<Rightarrow> component \<times> browser" where
  "tick t sw =
     (case sw of (s, w) \<Rightarrow>
        (if t \<in> set (intervals w) then (s\<lparr>duration := duration s + 1\<rparr>, w) else (s, w)))"

text \<open>\<open>mediaRecorder.ondataavailable\<close>: \<open>if (e.data.size > 0) chunksRef.current.push(e.data)\<close>.\<close>

definition ondataavailable :: "blob \<Rightarrow> component \<times> browser \<Rightarrow> component \<times> browser" where
  "ondataavailable data sw =
     (case sw of (s, w) \<Rightarrow>
        (case mediaRecorderRef s of
           None \<Rightarrow> (s, w)
         | Some rec \<Rightarrow>
             (if length (blobBytes data) > 0 then (s\<lparr>chunksRef := chunksRef s @ [data]\<rparr>, w)
              else (s, w))))"

subsection \<open>stopRecording\<close>

text \<open>
  \<open>MediaRecorder.stop()\<close> throws \<open>InvalidStateError\<close> on an inactive recorder;
  otherwise the recorder becomes inactive and its \<open>stop\<close> event is queued.
\<close>

definition recorderStop :: "mediaRecorder \<Rightarrow> js_error + mediaRecorder" where
  "recorderStop rec =
     (if recState rec = Inactive then Inl (DOMException ''InvalidStateError'')
      else Inr (rec\<lparr>recState := Inactive, stopQueued := True\<rparr>))"

definition stopRecording :: "component \<times> browser \<Rightarrow> js_error + component \<times> browser" where
  "stopRecording sw =
     (case sw of (s, w) \<Rightarrow>
        (case mediaRecorderRef s of
           None \<Rightarrow> Inr (s, w)
         | Some rec \<Rightarrow>
             (if isRecording s then
                (case recorderStop rec of
                   Inl err \<Rightarrow> Inl err
                 | Inr rec1 \<Rightarrow>
                     (let rec2 = rec1\<lparr>onstop := Some \<lparr>closStream = stream s,
                                                         closDuration = duration s\<rparr>\<rparr>;
                          s1 = s\<lparr>mediaRecorderRef := Some rec2, isRecording := False\<rparr>;
                          w1 = (case timerRef s of
                                  Some t \<Rightarrow> clearInterval t w
                                | None \<Rightarrow> w)
                      in Inr (s1, w1)))
              else Inr (s, w))))"

text \<open>The blob the \<open>onstop\<close> handler builds from the buffered chunks.\<close>

definition recordedBlob :: "blob list \<Rightarrow> blob" where
  "recordedBlob chunks = newBlob chunks ''audio/wav''"

text \<open>
  The body of the \<open>onstop\<close> handler, line by line: build the blob, stop every track of
  the captured stream, \<open>setStream(null)\<close>, \<open>onSave(blob, duration)\<close>.
\<close>

definition onstopHandler :: "onstopClosure \<Rightarrow> component \<times> browser \<Rightarrow> component \<times> browser" where
  "onstopHandler c sw =
     (case sw of (s, w) \<Rightarrow>
        (let blob = recordedBlob (chunksRef s);
             w1 = (case closStream c of
                     Some ms \<Rightarrow> stopTracks ms w
                   | None \<Rightarrow> w);
             s1 = s\<lparr>stream := None\<rparr>
         in (s1, w1\<lparr>effects := effects w1 @ [OnSave blob (closDuration c)]\<rparr>)))"

text \<open>
  The recorder's queued \<open>stop\<close> event is dispatched: the handler assigned to
  \<open>onstop\<close>, if any, runs. The model follows the recorder that
  \<open>mediaRecorderRef\<close> holds; the stop event of a recorder that a later start has
  replaced in the ref between Stop and the event is not followed.
\<close>

definition recorderStopped :: "component \<times> browser \<Rightarrow> component \<times> browser" where
  "recorderStopped sw =
     (case sw of (s, w) \<Rightarrow>
        (case mediaRecorderRef s of
           None \<Rightarrow> (s, w)
         | Some rec \<Rightarrow>
             (if stopQueued rec then
                (let s1 = s\<lparr>mediaRecorderRef := Some (rec\<lparr>stopQueued := False\<rparr>)\<rparr> in
                 (case onstop rec of
                    None \<Rightarrow> (s1, w)
                  | Some c \<Rightarrow> onstopHandler c (s1, w)))
              else (s, w))))"

subsection \<open>Sessions: the events a component lives through\<close>

text \<open>
  \<open>StartClick\<close> is a click on the Start button, which is rendered while
  \<open>isRecording\<close> is false: \<open>startRecording\<close> runs up to its \<open>await\<close>, leaving a
  pending \<open>getUserMedia\<close> promise. \<open>MicSettled mic\<close> is one pending promise settling
  with the outcome \<open>mic\<close>: the rest of \<open>startRecording\<close> runs. \<open>StopClick\<close> is a
  click on Stop, \<open>Tick t\<close> the interval timer \<open>t\<close> firing, \<open>DataAvailable\<close> and
  \<open>RecorderStopped\<close> the recorder's events.
\<close>

datatype event =
    StartClick
  | MicSettled microphone
  | Tick nat
  | DataAvailable blob
  | StopClick
  | RecorderStopped

text \<open>An exception that escapes a click handler is reported and changes nothing else.\<close>

fun dispatch :: "event \<Rightarrow> component \<times> browser \<Rightarrow> component \<times> browser" where
  "dispatch StartClick sw =
     (if isRecording (fst sw) then sw
      else (fst sw, (snd sw)\<lparr>micRequests := Suc (micRequests (snd sw))\<rparr>))"
| "dispatch (MicSettled mic) sw =
     (if micRequests (snd sw) = 0 then sw
      else startRecording mic (fst sw, (snd sw)\<lparr>micRequests := micRequests (snd sw) - 1\<rparr>))"
| "dispatch (Tick t) sw = tick t sw"
| "dispatch (DataAvailable data) sw = ondataavailable data sw"
| "dispatch StopClick sw =
     (case stopRecording sw of
        Inr sw1 \<Rightarrow> sw1
      | Inl err \<Rightarrow> (fst sw, (snd sw)\<lparr>effects := effects (snd sw) @ [Uncaught err]\<rparr>))"
| "dispatch RecorderStopped sw = recorderStopped sw"

fun run :: "event list \<Rightarrow> component \<times> browser \<Rightarrow> component \<times> browser" where
  "run [] sw = sw"
| "run (e # es) sw = run es (dispatch e sw)"

text \<open>A microphone that grants the stream \<open>ms\<close> and a recorder that starts.\<close>

definition granted :: "mediaStream \<Rightarrow> microphone" where
  "granted ms = \<lparr>getUserMedia = Inr ms, newMediaRecorder = None, recorderStart = None\<rparr>"

text \<open>The chunks \<open>ondataavailable\<close> keeps: those of positive size.\<close>

definition nonEmptyChunks :: "blob list \<Rightarrow> blob list" where
  "nonEmptyChunks cs = filter (\<lambda>c. length (blobBytes c) > 0) cs"

text \<open>The events between a start and its stop while audio is captured.\<close>

fun captureEvent :: "event \<Rightarrow> bool" where
  "captureEvent (Tick t) = True"
| "captureEvent (DataAvailable data) = True"
| "captureEvent e = False"

text \<open>
  One recording from click to saved artifact: Start, the microphone grants \<open>ms\<close>, the
  timer \<open>t\<close> fires \<open>k\<close> times (\<open>k\<close> seconds pass), Stop, the recorder delivers its
  data \<open>c\<close> and then its \<open>stop\<close> event.
\<close>

definition recordingSession :: "mediaStream \<Rightarrow> nat \<Rightarrow> nat \<Rightarrow> blob \<Rightarrow> event list" where
  "recordingSession ms t k c =
     [StartClick, MicSettled (granted ms)] @ replicate k (Tick t)
     @ [StopClick, DataAvailable c, RecorderStopped]"

section \<open>Concrete platforms for the examples\<close>

text \<open>
  \<open>JSON.parse\<close> on the texts the examples use: \<open>{}\<close> is the empty object, \<open>[]\<close> the
  empty array, \<open>{"summary":"s"}\<close> an object with one member. Every other text is
  answered \<open>None\<close>; of those the examples use only \<open>not json\<close>, which \<open>JSON.parse\<close>
  rejects.
\<close>

definition exampleParse :: "string \<Rightarrow> json option" where
  "exampleParse s =
     (if s = ''{}'' then Some (JObject [])
      else if s = ''[]'' then Some (JArray [])
      else if s = ''{\"summary\":\"s\"}'' then Some (JObject [(''summary'', JString ''s'')])
      else None)"

text \<open>A backend that answers every request with the response text \<open>t\<close>.\<close>

definition answering :: "string option \<Rightarrow> platform" where
  "answering t =
     \<lparr>newGoogleGenAI = None,
      generateContent = (\<lambda>req. Inr \<lparr>responseText = t\<rparr>),
      JSON_parse = exampleParse,
      readError = None\<rparr>"

text \<open>A backend that rejects every request with \<open>e\<close>.\<close>

definition rejecting :: "js_error \<Rightarrow> platform" where
  "rejecting e =
     \<lparr>newGoogleGenAI = None,
      generateContent = (\<lambda>req. Inl e),
      JSON_parse = exampleParse,
      readError = None\<rparr>"

text \<open>
  A page built without an API key: \<open>new GoogleGenAI({ apiKey: undefined })\<close> throws
  \<open>e\<close>. The backend behind it would answer every request with a greeting.
\<close>

definition unconfigured :: "js_error \<Rightarrow> platform" where
  "unconfigured e =
     \<lparr>newGoogleGenAI = Some e,
      generateContent = (\<lambda>req. Inr \<lparr>responseText = Some ''Take your time.''\<rparr>),
      JSON_parse = exampleParse,
      readError = None\<rparr>"

definition io0 :: io where
  "io0 = \<lparr>calls = [], console = []\<rparr>"

section \<open>Properties of the analysis client\<close>

subsection \<open>Base64 and the data URL\<close>

lemma indexOf_nth: "distinct xs \<Longrightarrow> n < length xs \<Longrightarrow> indexOf (xs ! n) xs = Some n"
proof (induction xs arbitrary: n)
  case Nil
  then show ?case by simp
next
  case (Cons y ys)
  show ?case
  proof (cases n)
    case 0
    then show ?thesis by simp
  next
    case (Suc m)
    with Cons.prems have "m < length ys" "distinct ys" "ys ! m \<noteq> y" by auto
    with Cons.IH[of m] Suc show ?thesis by simp
  qed
qed

lemma base64Alphabet_distinct: "distinct base64Alphabet"
  by (simp add: base64Alphabet_def)

lemma base64Alphabet_length: "length base64Alphabet = 64"
  by (simp add: base64Alphabet_def)

lemma b64index_b64char: "n < 64 \<Longrightarrow> b64index (b64char n) = Some n"
  unfolding b64index_def b64char_def
  using indexOf_nth[OF base64Alphabet_distinct, of n] by (simp add: base64Alphabet_length)

lemma b64char_in_alphabet: "b64char n \<in> set base64Alphabet"
  unfolding b64char_def by (rule nth_mem) (simp add: base64Alphabet_length)

lemma b64char_not_pad: "b64char n \<noteq> CHR ''=''"
proof -
  have "CHR ''='' \<notin> set base64Alphabet" by (simp add: base64Alphabet_def)
  then show ?thesis using b64char_in_alphabet[of n] by metis
qed

lemma b64char_not_comma: "b64char n \<noteq> CHR '',''"
proof -
  have "CHR '','' \<notin> set base64Alphabet" by (simp add: base64Alphabet_def)
  then show ?thesis using b64char_in_alphabet[of n] by metis
qed

lemma byte_bound: "unat (a :: byte) < 256"
  using unsigned_less[of a, where ?'a = nat] by simp

text \<open>The three bytes of a group come back from its four sextets.\<close>

lemma first_byte:
  "of_nat (unat a div 4 * 4 + (unat a mod 4 * 16 + unat (b :: byte) div 16) div 16) = (a :: byte)"
proof -
  have "unat b div 16 < 16" using byte_bound[of b] by simp
  then have "(unat a mod 4 * 16 + unat b div 16) div 16 = unat a mod 4" by simp
  then show ?thesis by simp
qed

lemma second_byte:
  "of_nat ((unat (a :: byte) mod 4 * 16 + unat b div 16) mod 16 * 16
      + (unat b mod 16 * 4 + unat (c :: byte) div 64) div 4) = (b :: byte)"
proof -
  have c: "unat c div 64 < 4" using byte_bound[of c] by simp
  have "(unat a mod 4 * 16 + unat b div 16) mod 16 = unat b div 16 mod 16" by simp
  also have "\<dots> = unat b div 16" using byte_bound[of b] by simp
  finally have hi: "(unat a mod 4 * 16 + unat b div 16) mod 16 = unat b div 16" .
  have lo: "(unat b mod 16 * 4 + unat c div 64) div 4 = unat b mod 16" using c by simp
  show ?thesis unfolding hi lo by simp
qed

lemma third_byte:
  "of_nat ((unat (b :: byte) mod 16 * 4 + unat c div 64) mod 4 * 64 + unat c mod 64) = (c :: byte)"
proof -
  have c: "unat c div 64 < 4" using byte_bound[of c] by simp
  have "(unat b mod 16 * 4 + unat c div 64) mod 4 = unat c div 64 mod 4" by simp
  also have "\<dots> = unat c div 64" using c by simp
  finally have hi: "(unat b mod 16 * 4 + unat c div 64) mod 4 = unat c div 64" .
  show ?thesis unfolding hi by simp
qed

lemma sextets:
  "unat (a :: byte) div 4 < 64"
  "unat (a :: byte) mod 4 * 16 + unat (b :: byte) div 16 < 64"
  "unat b mod 16 * 4 + unat (c :: byte) div 64 < 64"
  "unat c mod 64 < 64"
  "unat a mod 4 * 16 < 64"
  "unat b mod 16 * 4 < 64"
proof -
  show "unat a div 4 < 64" using byte_bound[of a] by simp
  have "unat a mod 4 < 4" "unat b div 16 < 16" using byte_bound[of b] by simp_all
  then show "unat a mod 4 * 16 + unat b div 16 < 64" by linarith
  have "unat b mod 16 < 16" "unat c div 64 < 4" using byte_bound[of c] by simp_all
  then show "unat b mod 16 * 4 + unat c div 64 < 64" by linarith
  show "unat c mod 64 < 64" by simp
  have "unat a mod 4 < 4" by simp
  then show "unat a mod 4 * 16 < 64" by linarith
  have "unat b mod 16 < 16" by simp
  then show "unat b mod 16 * 4 < 64" by linarith
qed

lemma base64_roundtrip: "base64_decode (base64_encode bs) = Some bs"
proof (induction bs rule: base64_encode.induct)
  case 1
  show ?case by simp
next
  case (2 a)
  show ?case by (simp add: b64index_b64char sextets)
next
  case (3 a b)
  show ?case using first_byte[of a b] second_byte[of a b 0]
    by (simp add: b64index_b64char sextets b64char_not_pad del: of_nat_add of_nat_mult)
next
  case (4 a b c rest)
  show ?case using first_byte[of a b] second_byte[of a b c] third_byte[of b c] 4
    by (simp add: b64index_b64char sextets b64char_not_pad del: of_nat_add of_nat_mult)
qed

lemma comma_notin_base64: "CHR '','' \<notin> set (base64_encode bs)"
  by (induction bs rule: base64_encode.induct) (simp_all add: b64char_not_comma[symmetric])

lemma js_split_none: "sep \<notin> set xs \<Longrightarrow> js_split sep xs = [xs]"
  by (induction xs) auto

lemma js_split_first: "sep \<notin> set xs \<Longrightarrow> js_split sep (xs @ sep # ys) = xs # js_split sep ys"
  by (induction xs) auto

lemma readAsDataURL_split:
  assumes "CHR '','' \<notin> set (blobType b)"
  shows "js_split (CHR '','') (readAsDataURL b) =
    [''data:'' @ (if blobType b = [] then ''application/octet-stream'' else blobType b) @ '';base64'',
     base64_encode (blobBytes b)]"
proof -
  let ?ty = "if blobType b = [] then ''application/octet-stream'' else blobType b"
  let ?pre = "''data:'' @ ?ty @ '';base64''"
  have pre: "CHR '','' \<notin> set ?pre" using assms by simp
  have "readAsDataURL b = ?pre @ CHR '','' # base64_encode (blobBytes b)"
    by (simp add: readAsDataURL_def)
  then have "js_split (CHR '','') (readAsDataURL b)
      = ?pre # js_split (CHR '','') (base64_encode (blobBytes b))"
    using js_split_first[OF pre] by simp
  then show ?thesis using js_split_none[OF comma_notin_base64] by simp
qed

lemma blobToBase64_payload:
  assumes "readError env = None" "CHR '','' \<notin> set (blobType b)"
  shows "blobToBase64 env b = Inr (Some (base64_encode (blobBytes b)))"
  using assms by (simp add: blobToBase64_def readAsDataURL_split)

subsection \<open>The three entry points\<close>

lemma analyzeTextTranscript_resolved:
  assumes "newGoogleGenAI env = None" "generateContent env (textRequest t) = Inr r"
  shows "analyzeTextTranscript env t w =
    catchLogRethrow ''Gemini Text Analysis Error:''
      (w\<lparr>calls := calls w @ [textRequest t]\<rparr>, parseResponse env r)"
  using assms by (simp add: analyzeTextTranscript_def callBackend_def)

lemma analyzeInterview_resolved:
  assumes "newGoogleGenAI env = None" "blobToBase64 env b = Inr d"
    "generateContent env (audioRequest d) = Inr r"
  shows "analyzeInterview env b w =
    catchLogRethrow ''Gemini Analysis Error:''
      (w\<lparr>calls := calls w @ [audioRequest d]\<rparr>, parseResponse env r)"
  using assms by (simp add: analyzeInterview_def callBackend_def)

lemma parseResponse_no_text:
  "responseText r = None \<or> responseText r = Some [] \<Longrightarrow> parseResponse env r = Inl noTextError"
  by (auto simp: parseResponse_def)

lemma parseResponse_parsed:
  "responseText r = Some s \<Longrightarrow> s \<noteq> [] \<Longrightarrow> JSON_parse env s = Some v \<Longrightarrow>
   parseResponse env r = Inr v"
  by (simp add: parseResponse_def)

lemma parseResponse_rejected:
  "responseText r = Some s \<Longrightarrow> s \<noteq> [] \<Longrightarrow> JSON_parse env s = None \<Longrightarrow>
   parseResponse env r = Inl SyntaxError"
  by (simp add: parseResponse_def)

lemma calls_catchLogRethrow: "calls (fst (catchLogRethrow l x)) = calls (fst x)"
proof (cases x)
  case (Pair w r)
  then show ?thesis by (cases r) simp_all
qed

lemma analyzeTextTranscript_calls:
  "newGoogleGenAI env = None \<Longrightarrow>
   calls (fst (analyzeTextTranscript env t w)) = calls w @ [textRequest t]"
  by (simp add: analyzeTextTranscript_def calls_catchLogRethrow callBackend_def split: sum.splits)

lemma analyzeInterview_calls:
  "newGoogleGenAI env = None \<Longrightarrow> blobToBase64 env b = Inr d \<Longrightarrow>
   calls (fst (analyzeInterview env b w)) = calls w @ [audioRequest d]"
  by (simp add: analyzeInterview_def calls_catchLogRethrow callBackend_def split: sum.splits)

lemma getWelcomeMessage_calls:
  "newGoogleGenAI env = None \<Longrightarrow>
   calls (fst (getWelcomeMessage env w)) = calls w @ [welcomeRequest]"
  by (simp add: getWelcomeMessage_def callBackend_def split: sum.splits)

text \<open>The examples' blob reaches the backend as the text \<open>TWE=\<close>.\<close>

lemma example_blobToBase64:
  "blobToBase64 (answering t) \<lparr>blobBytes = [77, 97], blobType = ''audio/wav''\<rparr> = Inr (Some ''TWE='')"
  by (simp add: blobToBase64_def readAsDataURL_def answering_def b64char_def base64Alphabet_def)

text \<open>
  A client that cannot be built, or a blob that cannot be read, fails before the
  \<open>try\<close> block: nothing is sent and nothing is logged.
\<close>

lemma failures_before_the_call:
  "newGoogleGenAI env = Some e \<Longrightarrow> getWelcomeMessage env w = (w, Inl e)"
  "newGoogleGenAI env = Some e \<Longrightarrow> analyzeTextTranscript env t w = (w, Inl e)"
  "newGoogleGenAI env = Some e \<Longrightarrow> analyzeInterview env b w = (w, Inl e)"
  "newGoogleGenAI env = None \<Longrightarrow> readError env = Some e \<Longrightarrow> analyzeInterview env b w = (w, Inl e)"
  by (simp_all add: getWelcomeMessage_def analyzeTextTranscript_def analyzeInterview_def
      blobToBase64_def)

section \<open>Properties of the capture unit\<close>

lemma fold_trackStop:
  "fold trackStop ts w =
     w\<lparr>liveTracks := filter (\<lambda>t. t \<notin> set ts) (liveTracks w),
       effects := effects w @ map TrackStop ts\<rparr>"
proof (induction ts arbitrary: w)
  case Nil
  show ?case by simp
next
  case (Cons t ts)
  have filt: "filter (\<lambda>x. x \<notin> set ts) (removeAll t xs)
      = filter (\<lambda>x. x \<notin> set (t # ts)) xs" for xs :: "track list"
    by (induction xs) auto
  have "fold trackStop (t # ts) w = fold trackStop ts (trackStop t w)"
    by simp
  also have "\<dots> = (trackStop t w)
      \<lparr>liveTracks := filter (\<lambda>x. x \<notin> set ts) (liveTracks (trackStop t w)),
        effects := effects (trackStop t w) @ map TrackStop ts\<rparr>"
    by (rule Cons.IH)
  also have "\<dots> = w\<lparr>liveTracks := filter (\<lambda>x. x \<notin> set (t # ts)) (liveTracks w),
        effects := effects w @ map TrackStop (t # ts)\<rparr>"
    using filt[of "liveTracks w"] by (simp add: trackStop_def)
  finally show ?case .
qed

lemma startRecording_granted:
  "startRecording (granted ms) (s, w) =
     (s\<lparr>stream := Some ms,
        mediaRecorderRef := Some \<lparr>recStream = ms, recState = Capturing, onstop = None, stopQueued = False\<rparr>,
        chunksRef := [], isRecording := True, timerRef := Some (nextTimer w)\<rparr>,
      w\<lparr>liveTracks := liveTracks w @ getTracks ms,
        intervals := intervals w @ [nextTimer w], nextTimer := Suc (nextTimer w)\<rparr>)"
  by (simp add: startRecording_def granted_def setInterval_def)

lemma startRecording_duration: "duration (fst (startRecording mic (s, w))) = duration s"
  by (simp add: startRecording_def setInterval_def Let_def split: sum.splits option.splits prod.splits)

lemma start_granted:
  assumes "\<not> isRecording s"
  shows "run [StartClick, MicSettled (granted ms)] (s, w) = startRecording (granted ms) (s, w)"
  using assms by simp

lemma run_append: "run (es @ fs) sw = run fs (run es sw)"
  by (induction es arbitrary: sw) simp_all

lemma run_ticks:
  "t \<in> set (intervals w) \<Longrightarrow> run (replicate k (Tick t)) (s, w) = (s\<lparr>duration := duration s + k\<rparr>, w)"
proof (induction k arbitrary: s)
  case 0
  show ?case by simp
next
  case (Suc k)
  have "run (replicate (Suc k) (Tick t)) (s, w) = run (replicate k (Tick t)) (s\<lparr>duration := duration s + 1\<rparr>, w)"
    using Suc.prems by (simp add: tick_def)
  also have "\<dots> = (s\<lparr>duration := duration s + 1\<rparr>\<lparr>duration := duration (s\<lparr>duration := duration s + 1\<rparr>) + k\<rparr>, w)"
    by (rule Suc.IH[OF Suc.prems])
  finally show ?case by simp
qed

text \<open>
  Stop, the recorder's last data and its \<open>stop\<close> event, from a state in which a
  recorder is capturing.
\<close>

lemma stop_sequence:
  assumes "isRecording s" "mediaRecorderRef s = Some rec" "recState rec = Capturing"
    "stream s = Some ms"
  shows "run [StopClick, DataAvailable c, RecorderStopped] (s, w) =
    (s\<lparr>mediaRecorderRef := Some (rec\<lparr>recState := Inactive, stopQueued := False,
            onstop := Some \<lparr>closStream = Some ms, closDuration = duration s\<rparr>\<rparr>),
        isRecording := False,
        chunksRef := chunksRef s @ nonEmptyChunks [c],
        stream := None\<rparr>,
     w\<lparr>intervals := (case timerRef s of Some t \<Rightarrow> removeAll t (intervals w) | None \<Rightarrow> intervals w),
       liveTracks := filter (\<lambda>t. t \<notin> set (getTracks ms)) (liveTracks w),
       effects := effects w @ map TrackStop (getTracks ms)
            @ [OnSave (recordedBlob (chunksRef s @ nonEmptyChunks [c])) (duration s)]\<rparr>)"
  using assms
  by (simp add: stopRecording_def recorderStop_def ondataavailable_def recorderStopped_def
      onstopHandler_def nonEmptyChunks_def clearInterval_def stopTracks_def fold_trackStop
      Let_def split: option.splits)

lemma session_run:
  assumes "\<not> isRecording s"
  shows "run (recordingSession ms (nextTimer w) k c) (s, w) =
    (s\<lparr>stream := None,
       mediaRecorderRef := Some \<lparr>recStream = ms, recState = Inactive,
          onstop = Some \<lparr>closStream = Some ms, closDuration = duration s + k\<rparr>, stopQueued = False\<rparr>,
       chunksRef := nonEmptyChunks [c], isRecording := False, timerRef := Some (nextTimer w),
       duration := duration s + k\<rparr>,
     w\<lparr>intervals := removeAll (nextTimer w) (intervals w), nextTimer := Suc (nextTimer w),
       liveTracks := filter (\<lambda>t. t \<notin> set (getTracks ms)) (liveTracks w),
       effects := effects w @ map TrackStop (getTracks ms)
          @ [OnSave (recordedBlob (nonEmptyChunks [c])) (duration s + k)]\<rparr>)"
proof -
  let ?t = "nextTimer w"
  let ?rec = "\<lparr>recStream = ms, recState = Capturing, onstop = None, stopQueued = False\<rparr>"
  define s1 where "s1 = s\<lparr>stream := Some ms, mediaRecorderRef := Some ?rec,
        chunksRef := [], isRecording := True, timerRef := Some ?t\<rparr>"
  define w1 where "w1 = w\<lparr>liveTracks := liveTracks w @ getTracks ms,
        intervals := intervals w @ [?t], nextTimer := Suc ?t\<rparr>"
  define s2 where "s2 = s1\<lparr>duration := duration s1 + k\<rparr>"
  have start: "run [StartClick, MicSettled (granted ms)] (s, w) = (s1, w1)"
    using assms by (simp add: startRecording_granted s1_def w1_def)
  have active: "?t \<in> set (intervals w1)" by (simp add: w1_def)
  have ticks: "run (replicate k (Tick ?t)) (s1, w1) = (s2, w1)"
    unfolding s2_def by (rule run_ticks[OF active])
  have "run (recordingSession ms ?t k c) (s, w) =
      run [StopClick, DataAvailable c, RecorderStopped]
        (run (replicate k (Tick ?t)) (run [StartClick, MicSettled (granted ms)] (s, w)))"
    unfolding recordingSession_def by (simp only: run_append)
  also have "\<dots> = run [StopClick, DataAvailable c, RecorderStopped] (s2, w1)"
    by (simp only: start ticks)
  also have "\<dots> =
    (s2\<lparr>mediaRecorderRef := Some (?rec\<lparr>recState := Inactive, stopQueued := False,
            onstop := Some \<lparr>closStream = Some ms, closDuration = duration s2\<rparr>\<rparr>),
        isRecording := False,
        chunksRef := chunksRef s2 @ nonEmptyChunks [c],
        stream := None\<rparr>,
     w1\<lparr>intervals := (case timerRef s2 of Some t \<Rightarrow> removeAll t (intervals w1) | None \<Rightarrow> intervals w1),
       liveTracks := filter (\<lambda>t. t \<notin> set (getTracks ms)) (liveTracks w1),
       effects := effects w1 @ map TrackStop (getTracks ms)
            @ [OnSave (recordedBlob (chunksRef s2 @ nonEmptyChunks [c])) (duration s2)]\<rparr>)"
    by (rule stop_sequence) (simp_all add: s2_def s1_def)
  finally show ?thesis by (simp add: s2_def s1_def w1_def)
qed

lemma capture_step:
  assumes "captureEvent e" "isRecording s" "stream s = Some ms"
    "mediaRecorderRef s = Some rec"
  shows "isRecording (fst (dispatch e (s, w))) \<and> stream (fst (dispatch e (s, w))) = Some ms
    \<and> mediaRecorderRef (fst (dispatch e (s, w))) = Some rec
    \<and> effects (snd (dispatch e (s, w))) = effects w
    \<and> liveTracks (snd (dispatch e (s, w))) = liveTracks w"
  using assms by (cases e) (simp_all add: tick_def ondataavailable_def)

lemma capture_run:
  assumes "list_all captureEvent evs" "isRecording s" "stream s = Some ms"
    "mediaRecorderRef s = Some rec"
  shows "isRecording (fst (run evs (s, w))) \<and> stream (fst (run evs (s, w))) = Some ms
    \<and> mediaRecorderRef (fst (run evs (s, w))) = Some rec
    \<and> effects (snd (run evs (s, w))) = effects w
    \<and> liveTracks (snd (run evs (s, w))) = liveTracks w"
  using assms
proof (induction evs arbitrary: s w)
  case Nil
  then show ?case by simp
next
  case (Cons e evs)
  obtain s1 w1 where d: "dispatch e (s, w) = (s1, w1)" by (cases "dispatch e (s, w)")
  have step: "isRecording s1 \<and> stream s1 = Some ms \<and> mediaRecorderRef s1 = Some rec
      \<and> effects w1 = effects w \<and> liveTracks w1 = liveTracks w"
    using capture_step[of e s ms rec w] Cons.prems d by simp
  have "list_all captureEvent evs" using Cons.prems(1) by simp
  then show ?case using Cons.IH[of s1 w1] step d by simp
qed

text \<open>
  A recording begun by one Start from a state that is not recording: whatever ticks and
  data arrive in between, nothing is handed on before the recorder's \<open>stop\<close> event, and
  the handler of that event stops every track of the stream, drops the stream and only
  then calls \<open>onSave\<close>; no track of the stream is live afterwards.
\<close>

lemma single_start_releases_before_save:
  assumes "list_all captureEvent evs" and "\<not> isRecording s"
  shows "effects (snd (run ([StartClick, MicSettled (granted ms)] @ evs @ [StopClick, DataAvailable c]) (s, w)))
           = effects w
    \<and> effects (snd (run ([StartClick, MicSettled (granted ms)] @ evs @ [StopClick, DataAvailable c, RecorderStopped]) (s, w)))
        = effects w @ map TrackStop (getTracks ms)
          @ [OnSave (recordedBlob (chunksRef (fst (run ([StartClick, MicSettled (granted ms)] @ evs) (s, w))) @ nonEmptyChunks [c]))
               (duration (fst (run ([StartClick, MicSettled (granted ms)] @ evs) (s, w))))]
    \<and> stream (fst (run ([StartClick, MicSettled (granted ms)] @ evs @ [StopClick, DataAvailable c, RecorderStopped]) (s, w))) = None
    \<and> set (getTracks ms) \<inter> set (liveTracks (snd (run ([StartClick, MicSettled (granted ms)] @ evs @ [StopClick, DataAvailable c, RecorderStopped]) (s, w)))) = {}"
proof -
  let ?rec = "\<lparr>recStream = ms, recState = Capturing, onstop = None, stopQueued = False\<rparr>"
  obtain s1 w1 where start: "run [StartClick, MicSettled (granted ms)] (s, w) = (s1, w1)"
    and s1: "isRecording s1" "stream s1 = Some ms" "mediaRecorderRef s1 = Some ?rec"
    and w1: "effects w1 = effects w"
    using assms(2) by (simp add: startRecording_granted)
  obtain s2 w2 where mid: "run evs (s1, w1) = (s2, w2)" by (cases "run evs (s1, w1)")
  have s2: "isRecording s2" "stream s2 = Some ms" "mediaRecorderRef s2 = Some ?rec" "effects w2 = effects w"
    using capture_run[OF assms(1) s1, of w1] mid w1 by simp_all
  have pre: "run ([StartClick, MicSettled (granted ms)] @ evs) (s, w) = (s2, w2)"
    by (simp only: run_append start mid)
  have a: "run ([StartClick, MicSettled (granted ms)] @ evs @ es) (s, w) = run es (s2, w2)" for es
    by (simp only: run_append start mid)
  have stop: "run [StopClick, DataAvailable c, RecorderStopped] (s2, w2) =
    (s2\<lparr>mediaRecorderRef := Some (?rec\<lparr>recState := Inactive, stopQueued := False,
            onstop := Some \<lparr>closStream = Some ms, closDuration = duration s2\<rparr>\<rparr>),
        isRecording := False,
        chunksRef := chunksRef s2 @ nonEmptyChunks [c],
        stream := None\<rparr>,
     w2\<lparr>intervals := (case timerRef s2 of Some t \<Rightarrow> removeAll t (intervals w2) | None \<Rightarrow> intervals w2),
       liveTracks := filter (\<lambda>t. t \<notin> set (getTracks ms)) (liveTracks w2),
       effects := effects w2 @ map TrackStop (getTracks ms)
            @ [OnSave (recordedBlob (chunksRef s2 @ nonEmptyChunks [c])) (duration s2)]\<rparr>)"
    by (rule stop_sequence) (simp_all add: s2)
  have before: "effects (snd (run [StopClick, DataAvailable c] (s2, w2))) = effects w2"
    using s2 by (simp add: stopRecording_def recorderStop_def ondataavailable_def clearInterval_def
        split: option.splits)
  show ?thesis
    unfolding a pre using stop before s2 by auto
qed

section \<open>The claims about the analysis client\<close>

text \<open>
  C1, as stated: when the response text is a JSON document that lacks some of the six
  result fields, the result returned has an empty array or an empty string for each of
  them. It fails: the document \<open>{"summary":"s"}\<close> comes back as parsed, with no
  \<open>satellites\<close> property at all, and \<open>{}\<close> comes back with no \<open>summary\<close>.
\<close>

theorem missing_fields_defaulted_counterexample:
  "snd (analyzeTextTranscript (answering (Some ''{\"summary\":\"s\"}'')) ''I felt a tightness'' io0)
     = Inr (JObject [(''summary'', JString ''s'')])
   \<and> getProp (JObject [(''summary'', JString ''s'')]) ''satellites'' = None
   \<and> getProp (JObject [(''summary'', JString ''s'')]) ''satellites'' \<noteq> Some (JArray [])
   \<and> snd (analyzeInterview (answering (Some ''{}'')) \<lparr>blobBytes = [77, 97], blobType = ''audio/wav''\<rparr> io0)
     = Inr (JObject [])
   \<and> getProp (JObject []) ''summary'' \<noteq> Some (JString [])"
  by (simp add: analyzeTextTranscript_def analyzeInterview_def callBackend_def parseResponse_def
      answering_def exampleParse_def blobToBase64_def io0_def)

text \<open>
  C1, amended: when the backend answers with a non-empty text that \<open>JSON.parse\<close> reads
  as an object, \<open>analyzeTextTranscript\<close> and \<open>analyzeInterview\<close> return exactly that
  object, without an exception and without a log line; a field the document lacks is
  absent (\<open>undefined\<close>) in the result, no default is put in its place.
\<close>

theorem parsed_document_returned_unchanged:
  assumes "newGoogleGenAI env = None"
    and "responseText r = Some s" and "s \<noteq> []"
    and "JSON_parse env s = Some (JObject kvs)" and "f \<notin> fst ` set kvs"
  shows "(generateContent env (textRequest t) = Inr r \<longrightarrow>
            analyzeTextTranscript env t w = (w\<lparr>calls := calls w @ [textRequest t]\<rparr>, Inr (JObject kvs)))
       \<and> (blobToBase64 env b = Inr d \<and> generateContent env (audioRequest d) = Inr r \<longrightarrow>
            analyzeInterview env b w = (w\<lparr>calls := calls w @ [audioRequest d]\<rparr>, Inr (JObject kvs)))
       \<and> getProp (JObject kvs) f = None"
  using assms
  by (simp add: analyzeTextTranscript_resolved analyzeInterview_resolved parseResponse_parsed
      map_of_eq_None_iff)

theorem parsed_document_returned_unchanged_witness:
  "analyzeTextTranscript (answering (Some ''{\"summary\":\"s\"}'')) ''I felt a tightness'' io0
     = (\<lparr>calls = [textRequest ''I felt a tightness''], console = []\<rparr>,
        Inr (JObject [(''summary'', JString ''s'')]))
   \<and> analyzeInterview (answering (Some ''{\"summary\":\"s\"}'')) \<lparr>blobBytes = [77, 97], blobType = ''audio/wav''\<rparr> io0
     = (\<lparr>calls = [audioRequest (Some ''TWE='')], console = []\<rparr>,
        Inr (JObject [(''summary'', JString ''s'')]))
   \<and> getProp (JObject [(''summary'', JString ''s'')]) ''suggestions'' = None"
  using parsed_document_returned_unchanged[of "answering (Some ''{\"summary\":\"s\"}'')"
      "\<lparr>responseText = Some ''{\"summary\":\"s\"}''\<rparr>" "''{\"summary\":\"s\"}''"
      "[(''summary'', JString ''s'')]" "''suggestions''" "''I felt a tightness''" io0
      "\<lparr>blobBytes = [77, 97], blobType = ''audio/wav''\<rparr>" "Some ''TWE=''"]
    example_blobToBase64[of "Some ''{\"summary\":\"s\"}''"]
  by (simp add: answering_def exampleParse_def io0_def)

text \<open>
  C2: when the backend's response carries no text (\<open>response.text\<close> is absent or
  empty), \<open>analyzeTextTranscript\<close> and \<open>analyzeInterview\<close> fail with the empty-response
  error (\<open>new Error("No response text from Gemini")\<close>) and return no analysis result.
\<close>

theorem empty_response_fails:
  assumes "newGoogleGenAI env = None"
    and "responseText r = None \<or> responseText r = Some []"
  shows "(generateContent env (textRequest t) = Inr r \<longrightarrow>
            snd (analyzeTextTranscript env t w) = Inl noTextError)
       \<and> (blobToBase64 env b = Inr d \<and> generateContent env (audioRequest d) = Inr r \<longrightarrow>
            snd (analyzeInterview env b w) = Inl noTextError)"
  using assms
  by (simp add: analyzeTextTranscript_resolved analyzeInterview_resolved parseResponse_no_text)

theorem empty_response_fails_witness:
  "snd (analyzeTextTranscript (answering None) ''I walked into the room'' io0)
     = Inl (Error ''No response text from Gemini'')
   \<and> snd (analyzeInterview (answering (Some [])) \<lparr>blobBytes = [77, 97], blobType = ''audio/wav''\<rparr> io0)
     = Inl (Error ''No response text from Gemini'')"
proof -
  have text_path: "snd (analyzeTextTranscript (answering None) ''I walked into the room'' io0) = Inl noTextError"
    using empty_response_fails[of "answering None" "\<lparr>responseText = None\<rparr>"
        "''I walked into the room''" io0]
    by (simp add: answering_def)
  have audio_path: "snd (analyzeInterview (answering (Some [])) \<lparr>blobBytes = [77, 97], blobType = ''audio/wav''\<rparr> io0)
      = Inl noTextError"
    using empty_response_fails[of "answering (Some [])" "\<lparr>responseText = Some []\<rparr>" _ io0
        "\<lparr>blobBytes = [77, 97], blobType = ''audio/wav''\<rparr>" "Some ''TWE=''"]
      example_blobToBase64[of "Some []"]
    by (simp add: answering_def)
  show ?thesis using text_path audio_path by (simp add: noTextError_def)
qed

text \<open>
  C3, as stated: a response text that is not the expected JSON result shape makes both
  functions fail with a typed malformed-result error. It fails: the text \<open>[]\<close> is JSON
  but not a result object, and both functions return the parsed array as the result.
\<close>

theorem wrong_shape_rejected_counterexample:
  "snd (analyzeTextTranscript (answering (Some ''[]'')) ''I felt a tightness'' io0) = Inr (JArray [])
   \<and> snd (analyzeInterview (answering (Some ''[]'')) \<lparr>blobBytes = [77, 97], blobType = ''audio/wav''\<rparr> io0)
     = Inr (JArray [])"
  by (simp add: analyzeTextTranscript_def analyzeInterview_def callBackend_def parseResponse_def
      answering_def exampleParse_def blobToBase64_def io0_def)

text \<open>
  C3, amended: when the backend answers with a non-empty text that \<open>JSON.parse\<close>
  rejects, \<open>analyzeTextTranscript\<close> and \<open>analyzeInterview\<close> log the parser's
  \<open>SyntaxError\<close> and rethrow it to the caller; it is a different error from the
  empty-response error. A text that parses is not checked against the result shape.
\<close>

theorem unparseable_text_rethrows_SyntaxError:
  assumes "newGoogleGenAI env = None"
    and "responseText r = Some s" and "s \<noteq> []" and "JSON_parse env s = None"
  shows "(generateContent env (textRequest t) = Inr r \<longrightarrow>
            analyzeTextTranscript env t w =
              (w\<lparr>calls := calls w @ [textRequest t],
                 console := console w @ [(''Gemini Text Analysis Error:'', SyntaxError)]\<rparr>,
               Inl SyntaxError))
       \<and> (blobToBase64 env b = Inr d \<and> generateContent env (audioRequest d) = Inr r \<longrightarrow>
            analyzeInterview env b w =
              (w\<lparr>calls := calls w @ [audioRequest d],
                 console := console w @ [(''Gemini Analysis Error:'', SyntaxError)]\<rparr>,
               Inl SyntaxError))
       \<and> SyntaxError \<noteq> noTextError"
  using assms
  by (simp add: analyzeTextTranscript_resolved analyzeInterview_resolved parseResponse_rejected
      noTextError_def)

theorem unparseable_text_rethrows_SyntaxError_witness:
  "analyzeTextTranscript (answering (Some ''not json'')) ''I felt a tightness'' io0
     = (\<lparr>calls = [textRequest ''I felt a tightness''],
         console = [(''Gemini Text Analysis Error:'', SyntaxError)]\<rparr>, Inl SyntaxError)
   \<and> analyzeInterview (answering (Some ''not json'')) \<lparr>blobBytes = [77, 97], blobType = ''audio/wav''\<rparr> io0
     = (\<lparr>calls = [audioRequest (Some ''TWE='')],
         console = [(''Gemini Analysis Error:'', SyntaxError)]\<rparr>, Inl SyntaxError)"
  using unparseable_text_rethrows_SyntaxError[of "answering (Some ''not json'')"
      "\<lparr>responseText = Some ''not json''\<rparr>" "''not json''" "''I felt a tightness''" io0
      "\<lparr>blobBytes = [77, 97], blobType = ''audio/wav''\<rparr>" "Some ''TWE=''"]
    example_blobToBase64[of "Some ''not json''"]
  by (simp add: answering_def exampleParse_def io0_def)

text \<open>
  C4: \<open>getWelcomeMessage\<close> never fails outward: it returns the fixed fallback welcome
  string instead of raising. The code breaks this. Its \<open>try\<close> block absorbs every
  failure of the backend call, but \<open>new GoogleGenAI(...)\<close> stands before the
  \<open>try\<close>: when the constructor throws (the SDK does so in a browser when no API key
  is set), the exception leaves \<open>getWelcomeMessage\<close>, no request is sent, nothing is
  logged and no fallback string is returned.
\<close>

theorem welcome_fails_without_client:
  "getWelcomeMessage (unconfigured (Error ''An API Key must be set when running in a browser'')) io0
     = (io0, Inl (Error ''An API Key must be set when running in a browser''))"
  by (simp add: getWelcomeMessage_def unconfigured_def)

text \<open>
  Once the client object is built, the function does return a string whatever the
  backend call does: the fixed fallback welcome string when the call throws and when it
  succeeds with absent or empty text, and the backend's text when that is not empty.
\<close>

theorem welcome_never_fails:
  assumes "newGoogleGenAI env = None"
  shows "(\<forall>e. generateContent env welcomeRequest = Inl e \<longrightarrow>
            snd (getWelcomeMessage env w) = Inr fallbackWelcome)
       \<and> (\<forall>r. generateContent env welcomeRequest = Inr r
              \<and> (responseText r = None \<or> responseText r = Some []) \<longrightarrow>
            snd (getWelcomeMessage env w) = Inr fallbackWelcome)
       \<and> (\<forall>r t. generateContent env welcomeRequest = Inr r \<and> responseText r = Some t \<and> t \<noteq> [] \<longrightarrow>
            snd (getWelcomeMessage env w) = Inr t)
       \<and> (\<exists>m. snd (getWelcomeMessage env w) = Inr m)"
  using assms
  by (auto simp: getWelcomeMessage_def callBackend_def split: sum.splits)

theorem welcome_never_fails_witness:
  "snd (getWelcomeMessage (rejecting (ApiError ''503'')) io0) = Inr fallbackWelcome
   \<and> snd (getWelcomeMessage (answering None) io0) = Inr fallbackWelcome
   \<and> snd (getWelcomeMessage (answering (Some [])) io0) = Inr fallbackWelcome
   \<and> snd (getWelcomeMessage (answering (Some ''Take your time.'')) io0) = Inr ''Take your time.''"
proof -
  have thrown: "snd (getWelcomeMessage (rejecting (ApiError ''503'')) io0) = Inr fallbackWelcome"
    using welcome_never_fails[of "rejecting (ApiError ''503'')" io0]
    by (simp add: rejecting_def)
  have absent: "snd (getWelcomeMessage (answering None) io0) = Inr fallbackWelcome"
    using welcome_never_fails[of "answering None" io0]
    by (simp add: answering_def)
  have empty: "snd (getWelcomeMessage (answering (Some [])) io0) = Inr fallbackWelcome"
    using welcome_never_fails[of "answering (Some [])" io0]
    by (simp add: answering_def)
  have given: "snd (getWelcomeMessage (answering (Some ''Take your time.'')) io0) = Inr ''Take your time.''"
    using welcome_never_fails[of "answering (Some ''Take your time.'')" io0]
    by (simp add: answering_def)
  show ?thesis using thrown absent empty given by simp
qed

text \<open>
  C5: \<open>analyzeInterview\<close> sends the blob's bytes base64-encoded (decoding the \<open>data\<close>
  string it sends gives back exactly the bytes) under the media-type tag
  \<open>audio/wav\<close>, which is the tag the capture unit puts on the blob it builds. The
  payload is cut out of the data URL at its first comma, so the blob's own type must not
  hold one; \<open>audio/wav\<close> does not.
\<close>

theorem audio_payload_is_base64:
  assumes "newGoogleGenAI env = None" and "readError env = None"
    and "CHR '','' \<notin> set (blobType audioBlob)"
  shows "calls (fst (analyzeInterview env audioBlob w))
           = calls w @ [\<lparr>model = modelId,
                contents = Parts [InlineData ''audio/wav'' (Some (base64_encode (blobBytes audioBlob))),
                                  TextPart AudioAnalysisPrompt],
                responseMimeType = Some ''application/json''\<rparr>]
       \<and> base64_decode (base64_encode (blobBytes audioBlob)) = Some (blobBytes audioBlob)
       \<and> blobType (recordedBlob chunks) = ''audio/wav''"
  using analyzeInterview_calls[OF assms(1) blobToBase64_payload[OF assms(2,3)], of w]
  by (simp add: base64_roundtrip audioRequest_def recordedBlob_def newBlob_def)

theorem audio_payload_is_base64_witness:
  "calls (fst (analyzeInterview (answering (Some ''{}''))
       (recordedBlob [\<lparr>blobBytes = [77], blobType = ''audio/webm''\<rparr>,
                      \<lparr>blobBytes = [97], blobType = ''audio/webm''\<rparr>]) io0))
     = [\<lparr>model = ''gemini-2.5-flash'',
         contents = Parts [InlineData ''audio/wav'' (Some ''TWE=''), TextPart AudioAnalysisPrompt],
         responseMimeType = Some ''application/json''\<rparr>]
   \<and> base64_decode ''TWE='' = Some [77, 97]
   \<and> blobType (recordedBlob [\<lparr>blobBytes = [77], blobType = ''audio/webm''\<rparr>,
                      \<lparr>blobBytes = [97], blobType = ''audio/webm''\<rparr>]) = ''audio/wav''"
  using audio_payload_is_base64[of "answering (Some ''{}'')"
      "recordedBlob [\<lparr>blobBytes = [77], blobType = ''audio/webm''\<rparr>,
                     \<lparr>blobBytes = [97], blobType = ''audio/webm''\<rparr>]" io0
      "[\<lparr>blobBytes = [77], blobType = ''audio/webm''\<rparr>,
        \<lparr>blobBytes = [97], blobType = ''audio/webm''\<rparr>]"]
  by (simp add: answering_def recordedBlob_def newBlob_def io0_def modelId_def
      b64char_def base64Alphabet_def)

text \<open>
  C9: the text-analysis call and the audio-analysis call each ask for the response MIME
  type \<open>application/json\<close>; the welcome call passes no \<open>config\<close> and so asks for
  none. Each function makes exactly that one call.
\<close>

theorem json_mode_requested:
  assumes "newGoogleGenAI env = None"
  shows "calls (fst (analyzeTextTranscript env t w)) = calls w @ [textRequest t]
       \<and> responseMimeType (textRequest t) = Some ''application/json''
       \<and> (blobToBase64 env b = Inr d \<longrightarrow>
            calls (fst (analyzeInterview env b w)) = calls w @ [audioRequest d]
            \<and> responseMimeType (audioRequest d) = Some ''application/json'')
       \<and> calls (fst (getWelcomeMessage env w)) = calls w @ [welcomeRequest]
       \<and> responseMimeType welcomeRequest = None"
  using assms
  by (simp add: analyzeTextTranscript_calls analyzeInterview_calls getWelcomeMessage_calls
      textRequest_def audioRequest_def welcomeRequest_def)

theorem json_mode_requested_witness:
  "map responseMimeType (calls (fst (analyzeTextTranscript (answering (Some ''{}'')) ''I felt a tightness'' io0)))
     = [Some ''application/json'']
   \<and> map responseMimeType (calls (fst (analyzeInterview (answering (Some ''{}''))
        \<lparr>blobBytes = [77, 97], blobType = ''audio/wav''\<rparr> io0)))
     = [Some ''application/json'']
   \<and> map responseMimeType (calls (fst (getWelcomeMessage (answering (Some ''{}'')) io0))) = [None]"
  using json_mode_requested[of "answering (Some ''{}'')" "''I felt a tightness''" io0
      "\<lparr>blobBytes = [77, 97], blobType = ''audio/wav''\<rparr>" "Some ''TWE=''"]
    example_blobToBase64[of "Some ''{}''"]
  by (simp add: answering_def io0_def)

section \<open>The claims about the capture unit\<close>

text \<open>
  C6: on every stop, every acquired stream track is stopped before the artifact is
  handed to \<open>onSave\<close>, so that no analysis is submitted while a microphone stream of the
  session is open. The code breaks this when Start is clicked twice before the first
  \<open>getUserMedia\<close> promise settles (the Start button is rendered until
  \<open>isRecording\<close> becomes true): both continuations run, the second stream and recorder
  overwrite the first, and Stop releases the second stream only. Track \<open>0\<close> of the
  first stream is never stopped and is live when \<open>onSave\<close> is called.
\<close>

theorem second_start_leaves_first_stream_open:
  "effects (snd (run [StartClick, StartClick,
                      MicSettled (granted (MediaStream [0])), MicSettled (granted (MediaStream [1])),
                      Tick 1, StopClick,
                      DataAvailable \<lparr>blobBytes = [77, 97], blobType = ''audio/webm''\<rparr>,
                      RecorderStopped]
                 (initialComponent, initialBrowser)))
     = [TrackStop 1, OnSave \<lparr>blobBytes = [77, 97], blobType = ''audio/wav''\<rparr> 1]
   \<and> liveTracks (snd (run [StartClick, StartClick,
                      MicSettled (granted (MediaStream [0])), MicSettled (granted (MediaStream [1])),
                      Tick 1, StopClick,
                      DataAvailable \<lparr>blobBytes = [77, 97], blobType = ''audio/webm''\<rparr>,
                      RecorderStopped]
                 (initialComponent, initialBrowser)))
     = [0]"
  by (simp add: initialComponent_def initialBrowser_def startRecording_def granted_def
      setInterval_def tick_def stopRecording_def recorderStop_def clearInterval_def
      ondataavailable_def recorderStopped_def onstopHandler_def stopTracks_def trackStop_def
      recordedBlob_def newBlob_def)

text \<open>
  C7: \<open>stopRecording\<close> called while no recording is active (\<open>isRecording\<close> is false:
  never started, or already stopped) is a no-op: it returns normally, calls nothing and
  leaves the component and the browser as they were.
\<close>

theorem stop_when_idle_is_noop:
  assumes "\<not> isRecording s"
  shows "stopRecording (s, w) = Inr (s, w) \<and> dispatch StopClick (s, w) = (s, w)"
  using assms by (simp add: stopRecording_def split: option.splits)

theorem stop_when_idle_is_noop_witness:
  "stopRecording (initialComponent, initialBrowser) = Inr (initialComponent, initialBrowser)
   \<and> run (recordingSession (MediaStream [7]) 0 3 \<lparr>blobBytes = [77, 97], blobType = ''audio/webm''\<rparr> @ [StopClick])
        (initialComponent, initialBrowser)
     = run (recordingSession (MediaStream [7]) 0 3 \<lparr>blobBytes = [77, 97], blobType = ''audio/webm''\<rparr>)
        (initialComponent, initialBrowser)"
proof -
  let ?c = "\<lparr>blobBytes = [77, 97], blobType = ''audio/webm''\<rparr>"
  let ?sw = "run (recordingSession (MediaStream [7]) 0 3 ?c) (initialComponent, initialBrowser)"
  have idle: "\<not> isRecording initialComponent" by (simp add: initialComponent_def)
  have stopped: "\<not> isRecording (fst ?sw)"
    using session_run[OF idle, of "MediaStream [7]" initialBrowser 3 ?c]
    by (simp add: initialBrowser_def)
  have "dispatch StopClick (fst ?sw, snd ?sw) = (fst ?sw, snd ?sw)"
    using stop_when_idle_is_noop[OF stopped] by blast
  then have "run (recordingSession (MediaStream [7]) 0 3 ?c @ [StopClick]) (initialComponent, initialBrowser) = ?sw"
    by (simp add: run_append)
  then show ?thesis using stop_when_idle_is_noop[OF idle, of initialBrowser] by simp
qed

text \<open>
  C8: when \<open>getUserMedia\<close> is refused or finds no device, \<open>startRecording\<close> shows the
  alert (and logs the error) and changes nothing else: the component's state is what it
  was, so \<open>isRecording\<close> stays false, no stream is held, and no timer is started.
\<close>

theorem microphone_refused_stays_idle:
  assumes "getUserMedia mic = Inl err"
  shows "startRecording mic (s, w) =
    (s, w\<lparr>effects := effects w @
        [ConsoleError ''Error accessing microphone:'' err,
         Alert ''Microphone access denied. Please allow microphone permissions.'']\<rparr>)"
  using assms by (simp add: startRecording_def microphoneDenied_def)

theorem microphone_refused_stays_idle_witness:
  "run [StartClick, MicSettled \<lparr>getUserMedia = Inl (DOMException ''NotAllowedError''),
                                newMediaRecorder = None, recorderStart = None\<rparr>]
       (initialComponent, initialBrowser)
     = (initialComponent,
        initialBrowser\<lparr>effects :=
          [ConsoleError ''Error accessing microphone:'' (DOMException ''NotAllowedError''),
           Alert ''Microphone access denied. Please allow microphone permissions.'']\<rparr>)
   \<and> isRecording initialComponent = False \<and> stream initialComponent = None
   \<and> intervals initialBrowser = []"
  using microphone_refused_stays_idle[of
      "\<lparr>getUserMedia = Inl (DOMException ''NotAllowedError''), newMediaRecorder = None, recorderStart = None\<rparr>"
      "DOMException ''NotAllowedError''" initialComponent "initialBrowser\<lparr>micRequests := 0\<rparr>"]
  by (simp add: initialComponent_def initialBrowser_def)

text \<open>
  C10: \<open>startRecording\<close> never resets the elapsed-seconds counter. In a component that
  records for \<open>k1\<close> seconds, stops, and records again for \<open>k2\<close> seconds, the second
  artifact is handed to \<open>onSave\<close> with the duration \<open>k1 + k2\<close>.
\<close>

theorem duration_never_reset:
  "duration (fst (startRecording mic (s, w))) = duration s
   \<and> effects (snd (run (recordingSession ms1 0 k1 c1 @ recordingSession ms2 1 k2 c2)
        (initialComponent, initialBrowser)))
      = map TrackStop (getTracks ms1) @ [OnSave (recordedBlob (nonEmptyChunks [c1])) k1]
        @ map TrackStop (getTracks ms2) @ [OnSave (recordedBlob (nonEmptyChunks [c2])) (k1 + k2)]"
proof -
  have idle: "\<not> isRecording initialComponent" by (simp add: initialComponent_def)
  obtain s1 w1 where r1: "run (recordingSession ms1 0 k1 c1) (initialComponent, initialBrowser) = (s1, w1)"
    and s1: "duration s1 = k1" "\<not> isRecording s1" and w1: "nextTimer w1 = 1"
      "effects w1 = map TrackStop (getTracks ms1) @ [OnSave (recordedBlob (nonEmptyChunks [c1])) k1]"
    using session_run[OF idle, of ms1 initialBrowser k1 c1]
    by (simp add: initialBrowser_def initialComponent_def)
  have "effects (snd (run (recordingSession ms2 1 k2 c2) (s1, w1)))
      = effects w1 @ map TrackStop (getTracks ms2)
        @ [OnSave (recordedBlob (nonEmptyChunks [c2])) (duration s1 + k2)]"
    using session_run[OF s1(2), of ms2 w1 k2 c2] w1(1) by simp
  then show ?thesis
    using r1 s1 w1 by (simp add: run_append startRecording_duration)
qed

theorem duration_never_reset_witness:
  "effects (snd (run (recordingSession (MediaStream [0]) 0 2 \<lparr>blobBytes = [77], blobType = ''audio/webm''\<rparr>
                      @ recordingSession (MediaStream [1]) 1 3 \<lparr>blobBytes = [97], blobType = ''audio/webm''\<rparr>)
        (initialComponent, initialBrowser)))
     = [TrackStop 0, OnSave \<lparr>blobBytes = [77], blobType = ''audio/wav''\<rparr> 2,
        TrackStop 1, OnSave \<lparr>blobBytes = [97], blobType = ''audio/wav''\<rparr> 5]"
  using duration_never_reset[of "granted (MediaStream [0])" initialComponent initialBrowser
      "MediaStream [0]" 2 "\<lparr>blobBytes = [77], blobType = ''audio/webm''\<rparr>"
      "MediaStream [1]" 3 "\<lparr>blobBytes = [97], blobType = ''audio/webm''\<rparr>"]
  by (simp add: recordedBlob_def newBlob_def nonEmptyChunks_def)

end
